theory Spec2Isabelle
  imports Main "HOL-Library.Word"
begin

unbundle bit_operations_syntax

section \<open>Go values: bytes, slices, outcomes\<close>

type_synonym byte = "8 word"

text \<open>\<^verbatim>\<open>type Attribute []byte\<close> (attribute.go, line 17).\<close>

type_synonym Attribute = "byte list"

text \<open>
  A Go function of result type \<^verbatim>\<open>(T, error)\<close> either returns a value with a nil error,
  returns a non-nil error (here: its message), or panics at run time (an index or a
  slice bound out of range). The three are kept apart.
\<close>

datatype 'a outcome = Return 'a | Error string | Panic

fun and_then :: "'a outcome \<Rightarrow> ('a \<Rightarrow> 'b outcome) \<Rightarrow> 'b outcome" where
  "and_then (Return x) f = f x"
| "and_then (Error e) f = Error e"
| "and_then Panic f = Panic"

text \<open>\<^verbatim>\<open>a[i]\<close>: a run-time panic unless \<^verbatim>\<open>i < len(a)\<close>.\<close>

definition index :: "'a list \<Rightarrow> nat \<Rightarrow> 'a outcome" where
  "index a i = (if i < length a then Return (a ! i) else Panic)"

text \<open>
  \<^verbatim>\<open>a[lo:hi]\<close>: a run-time panic unless \<^verbatim>\<open>lo <= hi <= cap(a)\<close>. The slices of this
  development are taken of values whose capacity is not observable otherwise, and
  every use below is behind a check of \<^verbatim>\<open>len(a)\<close>, so the capacity is the length.
\<close>

definition slice :: "'a list \<Rightarrow> nat \<Rightarrow> nat \<Rightarrow> 'a list outcome" where
  "slice a lo hi = (if lo \<le> hi \<and> hi \<le> length a then Return (take (hi - lo) (drop lo a)) else Panic)"

text \<open>
  The builtin \<^verbatim>\<open>copy(dst, src)\<close> overwrites the first \<^verbatim>\<open>min(len(dst), len(src))\<close>
  elements of \<^verbatim>\<open>dst\<close>; the model returns \<^verbatim>\<open>dst\<close> as it is afterwards.
\<close>

definition copy_bytes :: "'a list \<Rightarrow> 'a list \<Rightarrow> 'a list" where
  "copy_bytes dst src =
     (let n = min (length dst) (length src) in take n src @ drop n dst)"

text \<open>\<^verbatim>\<open>make([]byte, n)\<close>: n zero bytes.\<close>

definition make_bytes :: "nat \<Rightarrow> byte list" where
  "make_bytes n = replicate n 0"

subsection \<open>encoding/binary, big endian\<close>

text \<open>
  \<^verbatim>\<open>binary.BigEndian.Uint16(b)\<close> is \<^verbatim>\<open>uint16(b[1]) | uint16(b[0])<<8\<close>, after a bounds
  check of \<^verbatim>\<open>b[1]\<close>.
\<close>

definition Uint16 :: "byte list \<Rightarrow> 16 word outcome" where
  "Uint16 b =
     (if length b < 2 then Panic
      else Return ((ucast (b ! 1) :: 16 word) OR push_bit 8 (ucast (b ! 0) :: 16 word)))"

text \<open>
  \<^verbatim>\<open>binary.BigEndian.PutUint16(v[off:off+2], x)\<close> writes \<^verbatim>\<open>byte(x >> 8)\<close> and
  \<^verbatim>\<open>byte(x)\<close> through the sub-slice into \<^verbatim>\<open>v[off]\<close> and \<^verbatim>\<open>v[off+1]\<close>.
\<close>

definition PutUint16 :: "byte list \<Rightarrow> nat \<Rightarrow> 16 word \<Rightarrow> byte list" where
  "PutUint16 v off x = v[off := ucast (drop_bit 8 x), off + 1 := ucast x]"

text \<open>
  \<^verbatim>\<open>binary.BigEndian.PutUint32(b, x)\<close> writes \<^verbatim>\<open>byte(x >> 24)\<close>, \<^verbatim>\<open>byte(x >> 16)\<close>,
  \<^verbatim>\<open>byte(x >> 8)\<close>, \<^verbatim>\<open>byte(x)\<close> into \<^verbatim>\<open>b[0..3]\<close>.
\<close>

definition PutUint32 :: "byte list \<Rightarrow> 32 word \<Rightarrow> byte list" where
  "PutUint32 b x =
     b[0 := ucast (drop_bit 24 x), 1 := ucast (drop_bit 16 x),
       2 := ucast (drop_bit 8 x), 3 := ucast x]"

text \<open>The number a byte string denotes when read big endian.\<close>

definition be_nat :: "byte list \<Rightarrow> nat" where
  "be_nat bs = foldl (\<lambda>acc b. acc * 256 + unat b) 0 bs"

section \<open>attribute.go\<close>

text \<open>
  \<^verbatim>\<open>type EapMessage struct { Code EapCode; Identifier uint8; Type EapType; Data Attribute }\<close>
  with \<^verbatim>\<open>EapType\<close> (types.go, line 12) and \<^verbatim>\<open>EapCode\<close> both one byte wide.
\<close>

record EapMessage =
  Code :: byte
  Identifier :: byte
  Type :: byte
  Data :: Attribute

text \<open>\<^verbatim>\<open>NewString\<close> (lines 33-38). A Go string is its bytes; \<^verbatim>\<open>len(s)\<close> counts them.\<close>

definition NewString :: "byte list \<Rightarrow> Attribute outcome" where
  "NewString s = (if length s > 253 then Error ''string too long'' else Return s)"

text \<open>\<^verbatim>\<open>NewBytes\<close> (lines 49-56).\<close>

definition NewBytes :: "byte list \<Rightarrow> Attribute outcome" where
  "NewBytes b =
     (if length b > 253 then Error ''value too long''
      else let a = make_bytes (length b) in Return (copy_bytes a b))"

text \<open>
  \<^verbatim>\<open>NewTime\<close> (lines 101-109). The argument is \<^verbatim>\<open>t.Unix()\<close>, an \<^verbatim>\<open>int64\<close>: the only
  thing the function reads of \<^verbatim>\<open>t\<close>. The comparison with \<^verbatim>\<open>math.MaxUint32\<close> is a signed
  one; \<^verbatim>\<open>uint32(...)\<close> keeps the low 32 bits.
\<close>

definition MaxUint32 :: int where
  "MaxUint32 = 4294967295"

definition NewTime :: "64 word \<Rightarrow> Attribute outcome" where
  "NewTime unix =
     (if sint unix > MaxUint32 then Error ''time out of range''
      else let a = make_bytes 4 in Return (PutUint32 a (ucast unix)))"

text \<open>\<^verbatim>\<open>Attribute.EAPMessage\<close> (lines 158-173).\<close>

definition EAPMessage :: "Attribute \<Rightarrow> EapMessage outcome" where
  "EAPMessage a =
     (if length a < 5 then Error ''[EapDecode] protocol error input too small 1''
      else
        and_then (slice a 2 4) (\<lambda>b.
        and_then (Uint16 b) (\<lambda>len.
          if length a < unat len then Error ''[EapDecode] protocol error input too small 2''
          else
            and_then (index a 0) (\<lambda>c.
            and_then (index a 1) (\<lambda>i.
            and_then (index a 4) (\<lambda>t.
            and_then (slice a 5 (unat len)) (\<lambda>d.
              Return \<lparr>Code = c, Identifier = i, Type = t, Data = d\<rparr>)))))))"

text \<open>\<^verbatim>\<open>NewEAPMessage\<close> (lines 176-184). \<^verbatim>\<open>uint16(len(Data)+5)\<close> keeps the low 16 bits.\<close>

definition NewEAPMessage :: "byte \<Rightarrow> byte \<Rightarrow> byte \<Rightarrow> Attribute \<Rightarrow> Attribute" where
  "NewEAPMessage code identifier type data =
     (let v = make_bytes (length data + 5);
          v = v[0 := code];
          v = v[1 := identifier];
          v = PutUint16 v 2 (word_of_nat (length data + 5));
          v = v[4 := type]
      in take 5 v @ copy_bytes (drop 5 v) data)"

text \<open>
  The 2-byte big-endian length an EAP message carries at offsets 2 and 3, as a number.
\<close>

definition embedded_length :: "byte list \<Rightarrow> nat" where
  "embedded_length a = be_nat (take 2 (drop 2 a))"

section \<open>The packet codec\<close>

text \<open>
  \<^verbatim>\<open>Parse\<close> and \<^verbatim>\<open>Packet.Encode\<close> are called by server.go, and the file that defines
  them and the \<^verbatim>\<open>Packet\<close> type is not among the sources. They are modelled here from
  the specification (sections 3, 4.1, 4.2, 4.3 and 6). A Go result \<^verbatim>\<open>(T, error)\<close> of a
  function that cannot panic is a sum: \<open>Inl\<close> the error, \<open>Inr\<close> the value.
\<close>

type_synonym 'a result = "string + 'a"

type_synonym Addr = string

text \<open>
  Modelled from the spec: the \<^verbatim>\<open>Packet\<close> type is missing. Section 3: Code and Identifier
  (1 byte each), Authenticator (16 bytes), Attributes (an ordered sequence of type and
  raw value), Secret (not transmitted), and the transport metadata attached after
  decoding, which server.go line 81 names \<^verbatim>\<open>ClientAddr\<close>.
\<close>

record Packet =
  PacketCode :: byte
  PacketIdentifier :: byte
  Authenticator :: "byte list"
  Attributes :: "(byte \<times> byte list) list"
  Secret :: "byte list"
  ClientAddr :: Addr

text \<open>
  Modelled from the spec: the datagram ceiling is missing. Section 3: the total encoded
  size must be at most 4096.
\<close>

definition MaxPacketLength :: nat where
  "MaxPacketLength = 4096"

text \<open>
  Modelled from the spec: the attribute encoder is missing. Section 6: each attribute
  is Type (1 byte), Length (1 byte, 2 + len(Value)), Value; section 4.1: \<^verbatim>\<open>Encode\<close>
  concatenates them in order.
\<close>

definition EncodeAttribute :: "byte \<times> byte list \<Rightarrow> byte list" where
  "EncodeAttribute a = [fst a, word_of_nat (2 + length (snd a))] @ snd a"

definition EncodeAttributes :: "(byte \<times> byte list) list \<Rightarrow> byte list" where
  "EncodeAttributes as = concat (map EncodeAttribute as)"

text \<open>
  Modelled from the spec: the attribute parser is missing. Section 4.1: it consumes
  successive TLV records with a 2-byte header until the input is exhausted; fewer than
  2 bytes remaining, or a declared length shorter than 2 or longer than the remaining
  input, is the one condition \<^verbatim>\<open>MalformedAttribute\<close>, and the whole parse fails.
\<close>

fun ParseAttributes :: "byte list \<Rightarrow> (byte \<times> byte list) list result" where
  "ParseAttributes b =
     (if b = [] then Inr []
      else if length b < 2 then Inl ''MalformedAttribute''
      else if unat (b ! 1) < 2 \<or> length b < unat (b ! 1) then Inl ''MalformedAttribute''
      else (case ParseAttributes (drop (unat (b ! 1)) b) of
              Inl e \<Rightarrow> Inl e
            | Inr as \<Rightarrow> Inr ((b ! 0, take (unat (b ! 1) - 2) (drop 2 b)) # as)))"

declare ParseAttributes.simps [simp del]

text \<open>
  Modelled from the spec: the authenticator engine is missing. Section 4.2: one hash
  with a 16-byte digest, and Response Authenticator = hash(Code, Identifier, Length,
  RequestAuthenticator, EncodedAttributes, Secret). The hash function itself is a
  parameter; its digest is a 128-bit value, laid out as 16 bytes.
\<close>

definition digest_bytes :: "128 word \<Rightarrow> byte list" where
  "digest_bytes d = map (\<lambda>i. ucast (drop_bit (8 * (15 - i)) d)) [0..<16]"

definition be16 :: "nat \<Rightarrow> byte list" where
  "be16 n = [word_of_nat (n div 256), word_of_nat n]"

definition ResponseAuthenticator ::
  "(byte list \<Rightarrow> 128 word) \<Rightarrow> byte \<Rightarrow> byte \<Rightarrow> nat \<Rightarrow> byte list \<Rightarrow> byte list \<Rightarrow> byte list
   \<Rightarrow> byte list" where
  "ResponseAuthenticator hash code ident len reqAuth attrs secret =
     digest_bytes (hash ([code, ident] @ be16 len @ reqAuth @ attrs @ secret))"

text \<open>
  Modelled from the spec: \<^verbatim>\<open>Encode\<close> is missing. Section 4.3: it serializes Code,
  Identifier, the length, the Response Authenticator and the attributes; it fails if
  the total size would exceed the datagram ceiling or if Secret is empty. Section 3: a
  value longer than 253 bytes must be rejected before encoding, never truncated.
\<close>

definition Encode :: "(byte list \<Rightarrow> 128 word) \<Rightarrow> Packet \<Rightarrow> byte list \<Rightarrow> byte list result" where
  "Encode hash p reqAuth =
     (if Secret p = [] then Inl ''EmptySecret''
      else if \<not> list_all (\<lambda>a. length (snd a) \<le> 253) (Attributes p) then Inl ''EncodeOverflow''
      else
        let attrs = EncodeAttributes (Attributes p);
            size = 20 + length attrs
        in if size > MaxPacketLength then Inl ''EncodeOverflow''
           else Inr ([PacketCode p, PacketIdentifier p] @ be16 size
                     @ ResponseAuthenticator hash (PacketCode p) (PacketIdentifier p) size
                         reqAuth attrs (Secret p)
                     @ attrs))"

text \<open>
  Modelled from the spec: \<^verbatim>\<open>Parse\<close> is missing. Section 4.3: it validates an overall
  length of at least 20, reads Code, Identifier, Length and Authenticator, validates
  that Length equals the number of bytes exactly, delegates the remainder to the
  attribute parser, and attaches the secret. It does not validate the Authenticator,
  and it does not look at the secret.
\<close>

definition Parse :: "byte list \<Rightarrow> byte list \<Rightarrow> Packet result" where
  "Parse b secret =
     (if length b < 20 then Inl ''MalformedPacket''
      else if be_nat (take 2 (drop 2 b)) \<noteq> length b then Inl ''MalformedPacket''
      else (case ParseAttributes (drop 20 b) of
              Inl e \<Rightarrow> Inl e
            | Inr as \<Rightarrow>
                Inr \<lparr>PacketCode = b ! 0, PacketIdentifier = b ! 1,
                     Authenticator = take 16 (drop 4 b), Attributes = as,
                     Secret = secret, ClientAddr = []\<rparr>))"

text \<open>
  Modelled from the spec: what section 3 asks of a valid Packet. The Authenticator has
  16 bytes, every attribute has a type other than 0 and a value of at most 253 bytes,
  the encoded size is at most 4096, and (section 4.3) the secret is not empty.
\<close>

definition valid_packet :: "Packet \<Rightarrow> bool" where
  "valid_packet p \<longleftrightarrow>
     length (Authenticator p) = 16
     \<and> Secret p \<noteq> []
     \<and> list_all (\<lambda>a. fst a \<noteq> 0 \<and> length (snd a) \<le> 253) (Attributes p)
     \<and> 20 + length (EncodeAttributes (Attributes p)) \<le> MaxPacketLength"

section \<open>server.go\<close>

text \<open>
  server.go holds three drafts of the server, one after the other: lines 1-103 (a
  \<^verbatim>\<open>Service\<close> that maps a request packet to a response packet), lines 105-299 and lines
  301-440 (a \<^verbatim>\<open>Handler\<close> that is given a response writer). The accept loop is the same
  in the three; the per-datagram goroutine of the first differs from that of the other
  two, which are the same.

  What a goroutine does to the outside is a trace of events: the call of the handler,
  each \<^verbatim>\<open>conn.WriteTo\<close>, each \<^verbatim>\<open>fmt.Println\<close>.
\<close>

text \<open>
  How a goroutine ends: it returns, or it panics. Nothing in the sources calls
  \<^verbatim>\<open>recover\<close>, so a panic inside a goroutine is not caught, and an uncaught panic ends
  the whole process.
\<close>

datatype goroutine_end = Finished | Panicked




text \<open>
  The socket, as far as the goroutines use it: its local address, and for each
  \<^verbatim>\<open>WriteTo\<close> the error it returns, if any.
\<close>

record Conn =
  conn_LocalAddr :: Addr
  conn_WriteTo :: "byte list \<Rightarrow> Addr \<Rightarrow> string option"

text \<open>\<^verbatim>\<open>type Request struct\<close> (lines 129-141); the embedded \<^verbatim>\<open>*Packet\<close> is a field here.\<close>

record Request =
  LocalAddr :: Addr
  RemoteAddr :: Addr
  RequestPacket :: Packet

datatype event =
    Handle Packet
  | Serve Request
  | WriteTo "byte list" Addr
  | Println string

text \<open>
  A handler's run on a request: it returns, or it panics, or it calls \<^verbatim>\<open>Write\<close> with a
  packet and goes on from the error (or nil) that the call returns.
\<close>

datatype handler_run = Done | Panics | Write Packet "string option \<Rightarrow> handler_run"


text \<open>
  \<^verbatim>\<open>Server.Send\<close> (lines 90-97): the events, and the error returned. \<^verbatim>\<open>Packet.Encode\<close>
  is the parameter \<open>encode\<close>.
\<close>

definition Send ::
  "(Packet \<Rightarrow> byte list result) \<Rightarrow> Conn \<Rightarrow> Addr \<Rightarrow> Packet \<Rightarrow> event list \<times> string option" where
  "Send encode c addr p =
     (case encode p of
        Inl err \<Rightarrow> ([], Some err)
      | Inr buf \<Rightarrow> ([WriteTo buf addr], conn_WriteTo c buf addr))"

text \<open>
  \<^verbatim>\<open>responseWriter.Write\<close> (lines 158-167, 351-360): the events, and how the call ends:
  it returns nil (\<open>Return ()\<close>) or an error, or \<^verbatim>\<open>Packet.Encode\<close>, the parameter
  \<open>encode\<close>, panics.
\<close>

definition responseWriter_Write ::
  "(Packet \<Rightarrow> byte list outcome) \<Rightarrow> Conn \<Rightarrow> Addr \<Rightarrow> Packet \<Rightarrow> event list \<times> unit outcome" where
  "responseWriter_Write encode c addr packet =
     (case encode packet of
        Panic \<Rightarrow> ([], Panic)
      | Error err \<Rightarrow> ([], Error err)
      | Return encoded \<Rightarrow>
          (case conn_WriteTo c encoded addr of
             Some err \<Rightarrow> ([WriteTo encoded addr], Error err)
           | None \<Rightarrow> ([WriteTo encoded addr], Return ())))"

text \<open>
  \<^verbatim>\<open>Handler.ServeRADIUS\<close> run against a response writer \<open>w\<close>: the events, and how the
  call ends. A panic of the writer is not caught by the handler.
\<close>

primrec ServeRADIUS ::
  "(Packet \<Rightarrow> event list \<times> unit outcome) \<Rightarrow> handler_run \<Rightarrow> event list \<times> goroutine_end" where
  "ServeRADIUS w Done = ([], Finished)"
| "ServeRADIUS w Panics = ([], Panicked)"
| "ServeRADIUS w (Write p k) =
     (case snd (w p) of
        Panic \<Rightarrow> (fst (w p), Panicked)
      | Error err \<Rightarrow>
          (fst (w p) @ fst (ServeRADIUS w (k (Some err))), snd (ServeRADIUS w (k (Some err))))
      | Return u \<Rightarrow>
          (fst (w p) @ fst (ServeRADIUS w (k None)), snd (ServeRADIUS w (k None))))"

text \<open>
  The goroutine of the first draft (lines 69-87). \<^verbatim>\<open>s.SecretSource\<close>, \<^verbatim>\<open>Parse\<close>,
  \<^verbatim>\<open>Packet.Encode\<close> and \<^verbatim>\<open>s.service.RadiusHandle\<close> are parameters. There is no test of
  the secret's length.
\<close>

definition handle_datagram_draft1 ::
  "(Addr \<Rightarrow> byte list result) \<Rightarrow> (byte list \<Rightarrow> byte list \<Rightarrow> Packet result)
   \<Rightarrow> (Packet \<Rightarrow> byte list result) \<Rightarrow> (Packet \<Rightarrow> Packet) \<Rightarrow> Conn
   \<Rightarrow> byte list \<Rightarrow> Addr \<Rightarrow> event list" where
  "handle_datagram_draft1 secretSource parse encode service c p addr =
     (case secretSource addr of
        Inl err \<Rightarrow> []
      | Inr secret \<Rightarrow>
          (case parse p secret of
             Inl err \<Rightarrow> [Println (''[pac.Decode] '' @ err)]
           | Inr pac0 \<Rightarrow>
               (let pac = pac0\<lparr>ClientAddr := addr\<rparr>
                in Handle pac #
                   (case Send encode c addr (service pac) of
                      (es, Some err) \<Rightarrow> es @ [Println (''[npac.Send] '' @ err)]
                    | (es, None) \<Rightarrow> es))))"

text \<open>
  The goroutine of the second and third drafts (lines 218-248 and 402-432): its trace,
  and how it ends. \<^verbatim>\<open>s.SecretSource\<close>, \<^verbatim>\<open>Parse\<close>, \<^verbatim>\<open>Packet.Encode\<close> and the handler are
  parameters; each of them returns a value, returns an error, or panics, and a panic of
  any of them is a panic of the goroutine.
\<close>

definition handle_datagram ::
  "(Addr \<Rightarrow> byte list outcome) \<Rightarrow> (byte list \<Rightarrow> byte list \<Rightarrow> Packet outcome)
   \<Rightarrow> (Packet \<Rightarrow> byte list outcome) \<Rightarrow> (Request \<Rightarrow> handler_run) \<Rightarrow> Conn
   \<Rightarrow> byte list \<Rightarrow> Addr \<Rightarrow> event list \<times> goroutine_end" where
  "handle_datagram secretSource parse encode handler c p remoteAddr =
     (case secretSource remoteAddr of
        Panic \<Rightarrow> ([], Panicked)
      | Error err \<Rightarrow> ([], Finished)
      | Return secret \<Rightarrow>
          if length secret = 0 then ([], Finished)
          else
            (case parse p secret of
               Panic \<Rightarrow> ([], Panicked)
             | Error err \<Rightarrow> ([], Finished)
             | Return packet \<Rightarrow>
                 (let request = \<lparr>LocalAddr = conn_LocalAddr c, RemoteAddr = remoteAddr,
                                  RequestPacket = packet\<rparr>;
                      served = ServeRADIUS (responseWriter_Write encode c remoteAddr)
                                 (handler request)
                  in (Serve request # fst served, snd served))))"






text \<open>Whether a trace calls the handler, and whether it writes to the socket.\<close>

definition invokes_handler :: "event list \<Rightarrow> bool" where
  "invokes_handler es =
     list_ex (\<lambda>e. case e of Handle p \<Rightarrow> True | Serve r \<Rightarrow> True | _ \<Rightarrow> False) es"

definition writes_back :: "event list \<Rightarrow> bool" where
  "writes_back es = list_ex (\<lambda>e. case e of WriteTo b a \<Rightarrow> True | _ \<Rightarrow> False) es"

section \<open>Properties of attribute.go\<close>

subsection \<open>Bytes and words\<close>

lemma unat_byte_lt: "unat (b :: byte) < 256"
  using unsigned_less [of b, where ?'a = nat] by simp

lemma or_eq_add16: "(ucast (lo :: byte) :: 16 word) OR push_bit 8 (ucast (hi :: byte) :: 16 word) = ucast lo + 256 * ucast hi"
proof -
  have "(ucast lo :: 16 word) + push_bit 8 (ucast hi) = ucast lo OR push_bit 8 (ucast hi)"
    by (rule disjunctive_add) (auto simp add: bit_simps dest: bit_imp_le_length)
  then show ?thesis by (simp add: push_bit_eq_mult mult.commute)
qed

lemma unat_ucast_byte16: "unat (ucast (b :: byte) :: 16 word) = unat b"
  using unat_byte_lt [of b] by (simp add: unsigned_ucast_eq take_bit_eq_mod)

lemma unat_be16: "unat ((ucast (lo :: byte) :: 16 word) OR push_bit 8 (ucast (hi :: byte) :: 16 word)) = 256 * unat hi + unat lo"
  using unat_byte_lt [of lo] unat_byte_lt [of hi]
  by (simp add: or_eq_add16 unat_word_ariths unat_ucast_byte16)

lemma unat_len16: "n \<le> 65530 \<Longrightarrow> unat (word_of_nat (n + 5) :: 16 word) = n + 5"
  by (rule of_nat_inverse [OF refl]) simp

lemma be_bytes4:
  fixes x :: nat
  assumes "x < 4294967296"
  shows "((x div 16777216 mod 256 * 256 + x div 65536 mod 256) * 256 + x div 256 mod 256) * 256
           + x mod 256 = x"
proof -
  define a where "a = x div 256"
  define b where "b = a div 256"
  define c where "c = b div 256"
  have 1: "x div 65536 = b"
    unfolding b_def a_def by (simp add: div_mult2_eq [symmetric])
  have 2: "x div 16777216 = c"
    unfolding c_def b_def a_def by (simp add: div_mult2_eq [symmetric])
  have "c < 256"
    unfolding 2 [symmetric] using assms by (simp add: less_mult_imp_div_less)
  then have c: "c mod 256 = c" by simp
  have cb: "c * 256 + b mod 256 = b" unfolding c_def by simp
  have ba: "b * 256 + a mod 256 = a" unfolding b_def by simp
  have ax: "a * 256 + x mod 256 = x" unfolding a_def by simp
  show ?thesis
    unfolding 1 2 c a_def [symmetric] cb ba ax ..
qed

lemma PutUint32_make_bytes:
  "PutUint32 (make_bytes 4) w =
     [ucast (drop_bit 24 w), ucast (drop_bit 16 w), ucast (drop_bit 8 w), ucast w]"
proof -
  have "make_bytes 4 = [0, 0, 0, 0]"
    by (simp add: make_bytes_def numeral_eq_Suc)
  then show ?thesis
    by (simp add: PutUint32_def)
qed

lemma be_nat_PutUint32: "be_nat (PutUint32 (make_bytes 4) w) = unat w"
proof -
  have lt: "unat w < 4294967296"
    using unsigned_less [of w, where ?'a = nat] by simp
  have top: "unat w div 16777216 mod 256 = unat w div 16777216"
    using lt by (simp add: less_mult_imp_div_less)
  have "be_nat (PutUint32 (make_bytes 4) w) =
      ((unat w div 16777216 mod 256 * 256 + unat w div 65536 mod 256) * 256
        + unat w div 256 mod 256) * 256 + unat w mod 256"
    by (simp add: PutUint32_make_bytes be_nat_def unsigned_ucast_eq unat_drop_bit_eq
        take_bit_eq_mod drop_bit_eq_div unat_div top)
  also have "\<dots> = unat w"
    using lt by (rule be_bytes4)
  finally show ?thesis .
qed

lemma sint_mod: "uint (ucast (u :: 64 word) :: 32 word) = sint u mod 2 ^ 32"
proof -
  have "uint (ucast u :: 32 word) = take_bit 32 (uint u)"
    by (simp add: unsigned_ucast_eq)
  also have "\<dots> = take_bit 32 (take_bit 64 (sint u))"
    by (simp add: uint_sint)
  also have "\<dots> = take_bit 32 (sint u)"
    by simp
  also have "\<dots> = sint u mod 2 ^ 32"
    by (simp only: take_bit_eq_mod)
  finally show ?thesis .
qed

lemma Uint16_split: "Uint16 [ucast (drop_bit 8 w), ucast w] = Return (w :: 16 word)"
  apply (simp add: Uint16_def)
  apply (rule bit_eqI)
  apply (auto simp add: bit_simps)
  done

lemma copy_bytes_full: "length dst = length src \<Longrightarrow> copy_bytes dst src = src"
  by (simp add: copy_bytes_def)

lemma NewEAPMessage_bytes:
  "NewEAPMessage c i t d =
     [c, i, ucast (drop_bit 8 (word_of_nat (length d + 5) :: 16 word)),
      ucast (word_of_nat (length d + 5) :: 16 word), t] @ d"
  apply (simp add: NewEAPMessage_def make_bytes_def PutUint16_def Let_def copy_bytes_def)
  apply (simp add: numeral_eq_Suc list_update_code)
  done

lemma take2_drop2: "4 \<le> length a \<Longrightarrow> take 2 (drop 2 a) = [a ! 2, a ! 3]"
  by (cases a; cases "tl a"; cases "tl (tl a)"; cases "tl (tl (tl a))") (simp_all add: numeral_eq_Suc)

lemma embedded_length_eq: "4 \<le> length a \<Longrightarrow> embedded_length a = 256 * unat (a ! 2) + unat (a ! 3)"
  by (simp add: embedded_length_def take2_drop2 be_nat_def)

lemma EAPMessage_unfold:
  "EAPMessage a =
     (if length a < 5 then Error ''[EapDecode] protocol error input too small 1''
      else if length a < embedded_length a then Error ''[EapDecode] protocol error input too small 2''
      else if embedded_length a < 5 then Panic
      else Return \<lparr>Code = a ! 0, Identifier = a ! 1, Type = a ! 4,
                   Data = take (embedded_length a - 5) (drop 5 a)\<rparr>)"
proof (cases "length a < 5")
  case True
  then show ?thesis by (simp add: EAPMessage_def)
next
  case False
  then have 4: "4 \<le> length a" by simp
  define w :: "16 word" where "w = ucast (a ! 3) OR push_bit 8 (ucast (a ! 2))"
  have s: "slice a 2 4 = Return [a ! 2, a ! 3]"
    using 4 by (simp add: slice_def take2_drop2)
  have u: "Uint16 [a ! 2, a ! 3] = Return w"
    by (simp add: Uint16_def w_def)
  have n: "unat w = embedded_length a"
    using 4 by (simp add: w_def unat_be16 embedded_length_eq)
  have "EAPMessage a =
      (if length a < unat w then Error ''[EapDecode] protocol error input too small 2''
       else and_then (index a 0) (\<lambda>c. and_then (index a 1) (\<lambda>i. and_then (index a 4) (\<lambda>t.
            and_then (slice a 5 (unat w)) (\<lambda>d.
              Return \<lparr>Code = c, Identifier = i, Type = t, Data = d\<rparr>)))))"
    using False by (simp only: EAPMessage_def s u and_then.simps if_False)
  then show ?thesis
    using False by (simp add: n index_def slice_def)
qed

lemma EAPMessage_Error_iff:
  "(\<exists>e. EAPMessage a = Error e) \<longleftrightarrow> length a < 5 \<or> length a < embedded_length a"
  by (simp add: EAPMessage_unfold)

lemma EAPMessage_Panic_iff:
  "EAPMessage a = Panic \<longleftrightarrow> 5 \<le> length a \<and> embedded_length a < 5"
  by (auto simp add: EAPMessage_unfold)

lemma EAPMessage_Return_iff:
  "(\<exists>m. EAPMessage a = Return m) \<longleftrightarrow> 5 \<le> length a \<and> 5 \<le> embedded_length a \<and> embedded_length a \<le> length a"
  by (auto simp add: EAPMessage_unfold)

lemma NewEAPMessage_fields:
  assumes "length d \<le> 65530"
  shows "length (NewEAPMessage c i t d) = 5 + length d"
    and "NewEAPMessage c i t d ! 0 = c"
    and "NewEAPMessage c i t d ! 1 = i"
    and "embedded_length (NewEAPMessage c i t d) = 5 + length d"
    and "NewEAPMessage c i t d ! 4 = t"
    and "drop 5 (NewEAPMessage c i t d) = d"
proof -
  define w :: "16 word" where "w = word_of_nat (length d + 5)"
  have bytes: "NewEAPMessage c i t d = [c, i, ucast (drop_bit 8 w), ucast w, t] @ d"
    unfolding w_def by (rule NewEAPMessage_bytes)
  have n: "unat w = length d + 5"
    unfolding w_def using assms by (rule unat_len16)
  have "Uint16 [ucast (drop_bit 8 w), ucast w] = Return w"
    by (rule Uint16_split)
  then have "(ucast (ucast w :: byte) :: 16 word) OR push_bit 8 (ucast (ucast (drop_bit 8 w) :: byte)) = w"
    by (simp add: Uint16_def)
  then have "256 * unat (ucast (drop_bit 8 w) :: byte) + unat (ucast w :: byte) = unat w"
    by (simp only: unat_be16 [symmetric])
  then have e: "be_nat [ucast (drop_bit 8 w), ucast w] = length d + 5"
    by (simp add: be_nat_def n)
  show "length (NewEAPMessage c i t d) = 5 + length d"
    by (simp add: bytes)
  show "NewEAPMessage c i t d ! 0 = c"
    by (simp add: bytes)
  show "NewEAPMessage c i t d ! 1 = i"
    by (simp add: bytes)
  show "embedded_length (NewEAPMessage c i t d) = 5 + length d"
    using e by (simp add: bytes embedded_length_def)
  show "NewEAPMessage c i t d ! 4 = t"
    by (simp add: bytes)
  show "drop 5 (NewEAPMessage c i t d) = d"
    by (simp add: bytes)
qed

subsection \<open>The EAP decoder\<close>

text \<open>
  Claim C1: for every byte string, \<^verbatim>\<open>Attribute.EAPMessage\<close> returns an EapMessage or an
  error and never reads outside its input; in particular it does not panic on an input
  of at least 5 bytes whose embedded length is less than 5.

  The code does panic there: on the 5 bytes \<^verbatim>\<open>01 01 00 04 01\<close> both length checks pass
  (5 is not less than 5, and 5 is not less than the embedded length 4), and the slice
  expression \<^verbatim>\<open>a[5:length]\<close> is \<^verbatim>\<open>a[5:4]\<close>, whose bounds are out of range.
\<close>

theorem EAPMessage_panics_embedded_length_4:
  "EAPMessage [1, 1, 0, 4, 1] = Panic"
  by (simp add: EAPMessage_def slice_def Uint16_def index_def)

text \<open>
  Claim C2: \<^verbatim>\<open>Attribute.EAPMessage\<close> returns an error if and only if the input is shorter
  than 5 bytes or the embedded length exceeds the input's length, and in every other
  case returns an EapMessage with Code = byte 0, Identifier = byte 1, Type = byte 4 and
  Data = the bytes from offset 5 up to the embedded length.

  The input \<^verbatim>\<open>03 09 00 00 00\<close> is one of the other cases (5 bytes, embedded length 0),
  and no EapMessage is returned for it: the decoder panics. The lemmas
  \<open>EAPMessage_Error_iff\<close>, \<open>EAPMessage_Panic_iff\<close> and \<open>EAPMessage_Return\<close> above and below
  give the three outcomes in general.
\<close>

theorem EAPMessage_no_message_embedded_length_0:
  "5 \<le> length [3, 9, 0, 0, 0 :: byte]
   \<and> embedded_length [3, 9, 0, 0, 0] \<le> length [3, 9, 0, 0, 0 :: byte]
   \<and> EAPMessage [3, 9, 0, 0, 0] = Panic"
  by (simp add: EAPMessage_def slice_def Uint16_def index_def embedded_length_def be_nat_def)

lemma EAPMessage_Return:
  assumes "5 \<le> length a" and "5 \<le> embedded_length a" and "embedded_length a \<le> length a"
  shows "EAPMessage a =
    Return \<lparr>Code = a ! 0, Identifier = a ! 1, Type = a ! 4,
            Data = take (embedded_length a - 5) (drop 5 a)\<rparr>"
  using assms by (simp add: EAPMessage_unfold)

subsection \<open>The EAP encoder\<close>

text \<open>
  Claim C7, as stated: for every code, identifier, type and data, \<^verbatim>\<open>NewEAPMessage\<close>
  returns 5+len(Data) bytes whose bytes 2-3 are the big-endian value 5+len(Data).

  It fails for data of 65531 bytes: the value 65536 does not fit the 2-byte field, and
  \<^verbatim>\<open>uint16(len(Data)+5)\<close> stores 0.
\<close>

theorem NewEAPMessage_length_field_wraps:
  "be_nat (take 2 (drop 2 (NewEAPMessage 1 2 3 (replicate 65531 0)))) = 0
   \<and> be_nat (take 2 (drop 2 (NewEAPMessage 1 2 3 (replicate 65531 0))))
       \<noteq> 5 + length (replicate 65531 (0 :: byte))"
  by (simp add: NewEAPMessage_bytes be_nat_def)

text \<open>
  Claim C7, amended: for every code, identifier and type, and every data of at most
  65530 bytes, \<^verbatim>\<open>NewEAPMessage\<close> returns a byte string of length exactly 5+len(Data) whose
  byte 0 is Code, byte 1 is Identifier, bytes 2-3 are the big-endian value 5+len(Data),
  byte 4 is Type, and bytes 5 onward are Data.
\<close>

theorem NewEAPMessage_layout:
  assumes "length d \<le> 65530"
  shows "length (NewEAPMessage c i t d) = 5 + length d
    \<and> NewEAPMessage c i t d ! 0 = c
    \<and> NewEAPMessage c i t d ! 1 = i
    \<and> be_nat (take 2 (drop 2 (NewEAPMessage c i t d))) = 5 + length d
    \<and> NewEAPMessage c i t d ! 4 = t
    \<and> drop 5 (NewEAPMessage c i t d) = d"
  using NewEAPMessage_fields [OF assms, of c i t]
  by (simp add: embedded_length_def)

theorem NewEAPMessage_layout_witness:
  "length [7, 8 :: byte] \<le> 65530 \<and> NewEAPMessage 1 2 3 [7, 8] = [1, 2, 0, 7, 3, 7, 8]
   \<and> be_nat (take 2 (drop 2 (NewEAPMessage 1 2 3 [7, 8]))) = 5 + length [7, 8 :: byte]"
  using NewEAPMessage_layout [of "[7, 8]" 1 2 3]
  by (simp add: NewEAPMessage_bytes)

text \<open>
  Claim C9: for every code, identifier and type, and every data of at most 65530 bytes,
  decoding the value built by \<^verbatim>\<open>NewEAPMessage\<close> with \<^verbatim>\<open>Attribute.EAPMessage\<close> succeeds and
  returns an EapMessage with exactly that code, identifier, type and data.
\<close>

theorem EAPMessage_NewEAPMessage:
  assumes "length d \<le> 65530"
  shows "EAPMessage (NewEAPMessage c i t d) =
    Return \<lparr>Code = c, Identifier = i, Type = t, Data = d\<rparr>"
  using NewEAPMessage_fields [OF assms, of c i t]
  by (simp add: EAPMessage_unfold)

theorem EAPMessage_NewEAPMessage_witness:
  "length [7, 8 :: byte] \<le> 65530
   \<and> EAPMessage (NewEAPMessage 1 2 3 [7, 8]) =
       Return \<lparr>Code = 1, Identifier = 2, Type = 3, Data = [7, 8]\<rparr>"
  using EAPMessage_NewEAPMessage [of "[7, 8]" 1 2 3] by simp

subsection \<open>Bounded constructors\<close>

text \<open>
  Claim C8: \<^verbatim>\<open>NewString\<close> and \<^verbatim>\<open>NewBytes\<close> return an error for every input longer than
  253 bytes, and for every input of at most 253 bytes they succeed and return an
  Attribute whose bytes equal the input exactly.
\<close>

theorem NewString_NewBytes_limit:
  "(length s > 253 \<longrightarrow> (\<exists>e. NewString s = Error e))
   \<and> (length s \<le> 253 \<longrightarrow> NewString s = Return s)
   \<and> (length b > 253 \<longrightarrow> (\<exists>e. NewBytes b = Error e))
   \<and> (length b \<le> 253 \<longrightarrow> NewBytes b = Return b)"
  by (simp add: NewString_def NewBytes_def make_bytes_def copy_bytes_full)

theorem NewString_NewBytes_limit_witness:
  "length (replicate 254 (0 :: byte)) > 253
   \<and> (\<exists>e. NewString (replicate 254 0) = Error e)
   \<and> (\<exists>e. NewBytes (replicate 254 0) = Error e)
   \<and> length (replicate 253 (7 :: byte)) \<le> 253
   \<and> NewString (replicate 253 7) = Return (replicate 253 7)
   \<and> NewBytes (replicate 253 7) = Return (replicate 253 7)"
  using NewString_NewBytes_limit [of "replicate 254 0" "replicate 254 0"]
    NewString_NewBytes_limit [of "replicate 253 7" "replicate 253 7"]
  by simp

text \<open>
  Claim C10: \<^verbatim>\<open>NewTime\<close> returns an error exactly when the time's Unix-seconds value
  exceeds 2^32-1; negative Unix seconds are not rejected; every accepted time is encoded
  as its Unix-seconds value reduced modulo 2^32 in 4 big-endian bytes.
\<close>

theorem NewTime_range:
  "((\<exists>e. NewTime u = Error e) \<longleftrightarrow> sint u > 2 ^ 32 - 1)
   \<and> (sint u < 0 \<longrightarrow> (\<exists>a. NewTime u = Return a))
   \<and> (sint u \<le> 2 ^ 32 - 1 \<longrightarrow>
        (\<exists>a. NewTime u = Return a \<and> length a = 4 \<and> int (be_nat a) = sint u mod 2 ^ 32))"
  by (simp add: NewTime_def MaxUint32_def be_nat_PutUint32 sint_mod)
    (simp add: PutUint32_def make_bytes_def)

theorem NewTime_range_witness:
  "sint (- 1 :: 64 word) < 0 \<and> sint (- 1 :: 64 word) \<le> 2 ^ 32 - 1
   \<and> (\<exists>a. NewTime (- 1) = Return a \<and> length a = 4
          \<and> int (be_nat a) = sint (- 1 :: 64 word) mod 2 ^ 32)
   \<and> sint (4294967296 :: 64 word) > 2 ^ 32 - 1 \<and> (\<exists>e. NewTime 4294967296 = Error e)"
  using NewTime_range [of "- 1"] NewTime_range [of 4294967296]
  by simp

section \<open>Properties of the packet codec\<close>

lemma length_digest_bytes: "length (digest_bytes d) = 16"
  by (simp add: digest_bytes_def)

lemma unat_attr_len: "n \<le> 253 \<Longrightarrow> unat (word_of_nat (2 + n) :: byte) = 2 + n"
  by (rule of_nat_inverse [OF refl]) simp

lemma ParseAttributes_step:
  assumes "2 \<le> length b" and "2 \<le> unat (b ! 1)" and "unat (b ! 1) \<le> length b"
    and "ParseAttributes (drop (unat (b ! 1)) b) = Inr as"
  shows "ParseAttributes b = Inr ((b ! 0, take (unat (b ! 1) - 2) (drop 2 b)) # as)"
  using assms by (subst ParseAttributes.simps) auto

lemma ParseAttributes_Encode:
  "list_all (\<lambda>a. length (snd a) \<le> 253) as \<Longrightarrow> ParseAttributes (EncodeAttributes as) = Inr as"
proof (induction as)
  case Nil
  show ?case by (simp add: EncodeAttributes_def ParseAttributes.simps)
next
  case (Cons a as)
  obtain t v where a: "a = (t, v)" by (cases a)
  from Cons.prems have v: "length v \<le> 253" and rest: "list_all (\<lambda>a. length (snd a) \<le> 253) as"
    by (simp_all add: a)
  have IH: "ParseAttributes (EncodeAttributes as) = Inr as"
    using Cons.IH rest by simp
  define b where "b = EncodeAttributes (a # as)"
  have b: "b = t # word_of_nat (2 + length v) # v @ EncodeAttributes as"
    by (simp add: b_def EncodeAttributes_def EncodeAttribute_def a)
  have b1: "b ! 1 = word_of_nat (2 + length v)"
    unfolding b by simp
  have n: "unat (b ! 1) = 2 + length v"
    unfolding b1 using v by (rule unat_attr_len)
  have d: "drop (unat (b ! 1)) b = EncodeAttributes as"
    unfolding n by (simp add: b)
  have tk: "take (unat (b ! 1) - 2) (drop 2 b) = v"
    unfolding n by (simp add: b)
  have len: "length b = 2 + length v + length (EncodeAttributes as)"
    by (simp add: b)
  have b0: "b ! 0 = t"
    by (simp add: b)
  have "ParseAttributes b = Inr ((b ! 0, take (unat (b ! 1) - 2) (drop 2 b)) # as)"
  proof (rule ParseAttributes_step)
    show "2 \<le> length b" unfolding len by simp
    show "2 \<le> unat (b ! 1)" unfolding n by simp
    show "unat (b ! 1) \<le> length b" unfolding n len by simp
    show "ParseAttributes (drop (unat (b ! 1)) b) = Inr as" unfolding d by (rule IH)
  qed
  then have "ParseAttributes b = Inr ((t, v) # as)"
    by (simp only: tk b0)
  then show ?case
    by (simp only: b_def a)
qed


lemma be_nat_be16: "n < 65536 \<Longrightarrow> be_nat (be16 n) = n"
proof -
  assume n: "n < 65536"
  then have "n div 256 < 256" by simp
  then have hi: "unat (word_of_nat (n div 256) :: byte) = n div 256"
    by (simp add: unat_of_nat)
  have lo: "unat (word_of_nat n :: byte) = n mod 256"
    by (simp add: unat_of_nat)
  show ?thesis
    by (simp add: be16_def be_nat_def hi lo)
qed

lemma Encode_valid:
  assumes "valid_packet p"
  shows "Encode hash p reqAuth =
    Inr ([PacketCode p, PacketIdentifier p] @ be16 (20 + length (EncodeAttributes (Attributes p)))
         @ ResponseAuthenticator hash (PacketCode p) (PacketIdentifier p)
             (20 + length (EncodeAttributes (Attributes p))) reqAuth
             (EncodeAttributes (Attributes p)) (Secret p)
         @ EncodeAttributes (Attributes p))"
proof -
  have "list_all (\<lambda>a. length (snd a) \<le> 253) (Attributes p)"
    using assms by (simp add: valid_packet_def list_all_iff)
  then show ?thesis
    using assms by (simp add: valid_packet_def Encode_def Let_def)
qed

lemma Parse_wire:
  assumes "length auth = 16" and "20 + length attrs < 65536"
    and "ParseAttributes attrs = Inr as"
  shows "Parse ([c, i] @ be16 (20 + length attrs) @ auth @ attrs) secret =
    Inr \<lparr>PacketCode = c, PacketIdentifier = i, Authenticator = auth, Attributes = as,
         Secret = secret, ClientAddr = []\<rparr>"
proof -
  define b where "b = [c, i] @ be16 (20 + length attrs) @ auth @ attrs"
  have l16: "length (be16 (20 + length attrs)) = 2"
    by (simp add: be16_def)
  have len: "length b = 20 + length attrs"
    by (simp add: b_def l16 assms(1))
  have fld: "take 2 (drop 2 b) = be16 (20 + length attrs)"
    by (simp add: b_def l16)
  have d20: "drop 20 b = attrs"
    by (simp add: b_def l16 assms(1))
  have au: "take 16 (drop 4 b) = auth"
    by (simp add: b_def l16 assms(1))
  have b0: "b ! 0 = c" and b1: "b ! 1 = i"
    by (simp_all add: b_def)
  have "Parse b secret =
    Inr \<lparr>PacketCode = c, PacketIdentifier = i, Authenticator = auth, Attributes = as,
         Secret = secret, ClientAddr = []\<rparr>"
    unfolding Parse_def fld d20 au b0 b1 len be_nat_be16 [OF assms(2)] assms(3)
    by simp
  then show ?thesis
    by (simp only: b_def)
qed

text \<open>
  Claim C3: for any valid Packet P with secret S, decoding the bytes produced by encoding
  P (with the request authenticator) under secret S yields a Packet whose Code,
  Identifier and ordered Attribute sequence are identical to P's. Encoding a valid
  packet succeeds, and so does decoding its bytes, for every hash function and every
  request authenticator.
\<close>

theorem Parse_Encode:
  assumes "valid_packet p"
  shows "\<exists>b q. Encode hash p reqAuth = Inr b \<and> Parse b (Secret p) = Inr q
    \<and> PacketCode q = PacketCode p \<and> PacketIdentifier q = PacketIdentifier p
    \<and> Attributes q = Attributes p"
proof -
  let ?attrs = "EncodeAttributes (Attributes p)"
  let ?auth = "ResponseAuthenticator hash (PacketCode p) (PacketIdentifier p)
      (20 + length ?attrs) reqAuth ?attrs (Secret p)"
  have enc: "Encode hash p reqAuth =
      Inr ([PacketCode p, PacketIdentifier p] @ be16 (20 + length ?attrs) @ ?auth @ ?attrs)"
    using assms by (rule Encode_valid)
  have "list_all (\<lambda>a. length (snd a) \<le> 253) (Attributes p)"
    using assms by (simp add: valid_packet_def list_all_iff)
  then have pa: "ParseAttributes ?attrs = Inr (Attributes p)"
    by (rule ParseAttributes_Encode)
  have sz: "20 + length ?attrs < 65536"
    using assms by (simp add: valid_packet_def MaxPacketLength_def)
  have la: "length ?auth = 16"
    by (simp add: ResponseAuthenticator_def length_digest_bytes)
  show ?thesis
    unfolding enc using Parse_wire [OF la sz pa] by simp
qed

theorem Parse_Encode_witness:
  "valid_packet \<lparr>PacketCode = 2, PacketIdentifier = 7, Authenticator = replicate 16 0,
       Attributes = [(1, [97, 98]), (79, [])], Secret = [115], ClientAddr = []\<rparr>
   \<and> (\<exists>b q. Encode (\<lambda>_. 0) \<lparr>PacketCode = 2, PacketIdentifier = 7, Authenticator = replicate 16 0,
           Attributes = [(1, [97, 98]), (79, [])], Secret = [115], ClientAddr = []\<rparr> [] = Inr b
         \<and> Parse b [115] = Inr q \<and> PacketCode q = 2 \<and> PacketIdentifier q = 7
         \<and> Attributes q = [(1, [97, 98]), (79, [])])"
proof -
  have v: "valid_packet \<lparr>PacketCode = 2, PacketIdentifier = 7, Authenticator = replicate 16 0,
       Attributes = [(1, [97, 98]), (79, [])], Secret = [115], ClientAddr = []\<rparr>"
    by (simp add: valid_packet_def EncodeAttributes_def EncodeAttribute_def MaxPacketLength_def)
  show ?thesis
    using v Parse_Encode [OF v, of "\<lambda>_. 0" "[]"] by simp
qed

section \<open>Properties of server.go\<close>

subsection \<open>The per-datagram goroutine\<close>

lemma handle_datagram_drops:
  assumes "(\<exists>err. secretSource remoteAddr = Error err) \<or> secretSource remoteAddr = Return []
    \<or> (\<exists>secret err. secretSource remoteAddr = Return secret \<and> parse p secret = Error err)"
  shows "handle_datagram secretSource parse encode handler c p remoteAddr = ([], Finished)"
  using assms by (auto simp add: handle_datagram_def)

lemma handle_datagram_draft1_drops:
  assumes "(\<exists>err. secretSource addr = Inl err)
    \<or> (\<exists>secret err. secretSource addr = Inr secret \<and> parse p secret = Inl err)"
  shows "\<not> invokes_handler (handle_datagram_draft1 secretSource parse encode service c p addr)
    \<and> \<not> writes_back (handle_datagram_draft1 secretSource parse encode service c p addr)"
  using assms by (auto simp add: handle_datagram_draft1_def invokes_handler_def writes_back_def)

lemma handle_datagram_draft1_empty_secret:
  assumes "secretSource addr = Inr []" and "parse p [] = Inr pac"
  shows "invokes_handler (handle_datagram_draft1 secretSource parse encode service c p addr)"
  using assms by (simp add: handle_datagram_draft1_def invokes_handler_def Let_def)

lemma Parse_header_only:
  "Parse ([1, 7, 0, 20] @ replicate 16 0) [] =
     Inr \<lparr>PacketCode = 1, PacketIdentifier = 7, Authenticator = replicate 16 0,
          Attributes = [], Secret = [], ClientAddr = []\<rparr>"
proof -
  have "ParseAttributes [] = Inr []"
    by (simp add: ParseAttributes.simps)
  then show ?thesis
    by (simp add: Parse_def be_nat_def)
qed

text \<open>
  Claim C4: in the per-datagram task spawned by \<^verbatim>\<open>Server.ListenAndServe\<close>, if the
  secret-lookup function returns an error, or returns an empty secret, or \<^verbatim>\<open>Parse\<close>
  returns an error, then the datagram is dropped: the handler is never invoked and no
  bytes are written back to the sender.

  The goroutine of lines 218-248 and 402-432 does so (\<open>handle_datagram_drops\<close>). The one
  of lines 69-87 does so for the two errors (\<open>handle_datagram_draft1_drops\<close>) and has no
  test for the empty secret: with a secret source that returns an empty secret and a
  well-formed Access-Request of 20 bytes, the packet is parsed and the service is
  called with it.
\<close>

theorem handle_datagram_draft1_serves_empty_secret:
  "invokes_handler
     (handle_datagram_draft1 (\<lambda>a. Inr []) Parse (\<lambda>q. Encode (\<lambda>b. 0) q (replicate 16 0))
        (\<lambda>q. q\<lparr>PacketCode := 2\<rparr>)
        \<lparr>conn_LocalAddr = '':1812'', conn_WriteTo = (\<lambda>b a. None)\<rparr>
        ([1, 7, 0, 20] @ replicate 16 0) ''10.0.0.1:4000'')"
  by (rule handle_datagram_draft1_empty_secret
      [of "\<lambda>a. Inr []" "''10.0.0.1:4000''" Parse, OF refl Parse_header_only])

subsection \<open>Goroutines that do not panic\<close>





subsection \<open>The accept loop\<close>








end
